theory Spec2Isabelle
  imports Main "HOL-Library.Sublist"
begin

section \<open>Python values and the built-in operations the program uses\<close>

text \<open>
  The program handles the values that \<^verbatim>\<open>json.loads\<close> produces: \<^verbatim>\<open>None\<close>, booleans,
  integers, floats, strings, lists and dictionaries with string keys. A text is a
  sequence of 8-bit characters: the UTF-8 encoding of the Python text, with a lone
  surrogate encoded like any other code point. The program itself only compares texts,
  tests them for emptiness and concatenates them.

  The program applies exactly two operations to a decoded value: \<^verbatim>\<open>int(v)\<close> and
  \<^verbatim>\<open>str(v)\<close>. A float is therefore represented by these two observations: what
  \<^verbatim>\<open>int\<close> returns for it (nothing for nan and the infinities, where \<^verbatim>\<open>int\<close> raises)
  and the text \<^verbatim>\<open>str\<close> prints for it. The float 1.5 is \<open>PFloat (Some 1) ''1.5''\<close>.
  An integer \<open>PInt i\<close> is one that the interpreter prints in decimal, as are all the
  integers that \<^verbatim>\<open>json.loads\<close> and \<^verbatim>\<open>int\<close> return.
\<close>

datatype pyval =
    PNone
  | PBool bool
  | PInt int
  | PFloat (float_int: "int option") (float_str: string)
  | PStr string
  | PList "pyval list"
  | PDict "(string \<times> pyval) list"

text \<open>
  Exceptions, with the message \<^verbatim>\<open>str(e)\<close> prints. The two that \<^verbatim>\<open>run_powershell\<close>
  catches are kept apart from every other one.
\<close>

datatype py_exception =
    JSONDecodeError string
  | ValueError string
  | FileNotFoundError string
  | TimeoutExpired string
  | OtherException string

fun exc_str :: "py_exception \<Rightarrow> string" where
  "exc_str (JSONDecodeError m) = m"
| "exc_str (ValueError m) = m"
| "exc_str (FileNotFoundError m) = m"
| "exc_str (TimeoutExpired m) = m"
| "exc_str (OtherException m) = m"

subsection \<open>Decimal text of an integer\<close>

definition digit_char :: "nat \<Rightarrow> char" where
  "digit_char d = ''0123456789'' ! (d mod 10)"

fun str_nat :: "nat \<Rightarrow> string" where
  "str_nat n = (if n < 10 then [digit_char n] else str_nat (n div 10) @ [digit_char (n mod 10)])"

declare str_nat.simps [simp del]

definition str_int :: "int \<Rightarrow> string" where
  "str_int i = (if i < 0 then CHR ''-'' # str_nat (nat (- i)) else str_nat (nat i))"

subsection \<open>The built-in operations on texts\<close>

text \<open>
  Three operations of the interpreter look inside a text: \<^verbatim>\<open>int(s)\<close>, which returns an
  integer or raises \<^verbatim>\<open>ValueError\<close> (\<open>None\<close> here), \<^verbatim>\<open>s.strip()\<close> and \<^verbatim>\<open>repr(s)\<close>.
  What they return depends on the interpreter (its Unicode tables, its limit on the
  digits of a number), so they are parameters: everything below holds for whatever
  these three functions are.
\<close>

record python =
  int_of_str :: "string \<Rightarrow> int option"
  str_strip :: "string \<Rightarrow> string"
  repr_of_str :: "string \<Rightarrow> string"

text \<open>
  \<^verbatim>\<open>int(v)\<close>: \<open>None\<close> when Python raises (\<^verbatim>\<open>TypeError\<close> for \<^verbatim>\<open>None\<close>, lists and
  dictionaries, \<^verbatim>\<open>ValueError\<close> or \<^verbatim>\<open>OverflowError\<close> otherwise).
\<close>

fun py_int :: "python \<Rightarrow> pyval \<Rightarrow> int option" where
  "py_int py PNone = None"
| "py_int py (PBool b) = Some (if b then 1 else 0)"
| "py_int py (PInt i) = Some i"
| "py_int py (PFloat io r) = io"
| "py_int py (PStr s) = int_of_str py s"
| "py_int py (PList xs) = None"
| "py_int py (PDict kvs) = None"

subsection \<open>\<^verbatim>\<open>repr\<close> and \<^verbatim>\<open>str\<close>\<close>

fun join :: "string \<Rightarrow> string list \<Rightarrow> string" where
  "join sep [] = []"
| "join sep [x] = x"
| "join sep (x # y # ys) = x @ sep @ join sep (y # ys)"

fun py_repr :: "python \<Rightarrow> pyval \<Rightarrow> string" where
  "py_repr py PNone = ''None''"
| "py_repr py (PBool b) = (if b then ''True'' else ''False'')"
| "py_repr py (PInt i) = str_int i"
| "py_repr py (PFloat io r) = r"
| "py_repr py (PStr s) = repr_of_str py s"
| "py_repr py (PList xs) = ''['' @ join '', '' (map (py_repr py) xs) @ '']''"
| "py_repr py (PDict kvs) =
     ''{'' @ join '', ''
              (map (\<lambda>kv. repr_of_str py (fst kv) @ '': '' @ py_repr py (snd kv)) kvs) @ ''}''"

fun py_str :: "python \<Rightarrow> pyval \<Rightarrow> string" where
  "py_str py (PStr s) = s"
| "py_str py v = py_repr py v"

section \<open>The assessment-state decoder\<close>

definition decode_assessment_state :: "python \<Rightarrow> pyval \<Rightarrow> string" where
  "decode_assessment_state py v =
     (case py_int py v of
        None \<Rightarrow> py_str py v
      | Some iv \<Rightarrow>
          (if iv = 1 then ''1 (Valid/Completed)''
           else if iv = 0 then ''0 (Not run/Unknown)''
           else str_int iv @ '' (Unknown meaning)''))"

section \<open>The operating system as the program sees it\<close>

text \<open>
  The environment variables, the platform's \<^verbatim>\<open>os.path.join\<close> and \<^verbatim>\<open>os.path.exists\<close>,
  what \<^verbatim>\<open>subprocess.run\<close> does with an argument vector and a timeout (it returns a
  completed process or raises), and the list of processes started so far.
\<close>

record completed_process =
  returncode :: int
  stdout :: string
  stderr :: string

record os_world =
  environ :: "string \<rightharpoonup> string"
  path_join :: "string \<Rightarrow> string list \<Rightarrow> string"
  path_exists :: "string \<Rightarrow> bool"
  subprocess_run :: "string list \<Rightarrow> int \<Rightarrow> py_exception + completed_process"
  spawned :: "string list list"

subsection \<open>\<^verbatim>\<open>resolve_powershell_path\<close>\<close>

definition system_root :: "os_world \<Rightarrow> string" where
  "system_root w =
     (case environ w ''SystemRoot'' of
        None \<Rightarrow> ''C:'' @ [CHR 0x5C] @ ''Windows''
      | Some r \<Rightarrow> r)"

definition ps_system32 :: "os_world \<Rightarrow> string" where
  "ps_system32 w =
     path_join w (system_root w) [''System32'', ''WindowsPowerShell'', ''v1.0'', ''powershell.exe'']"

definition ps_sysnative :: "os_world \<Rightarrow> string" where
  "ps_sysnative w =
     path_join w (system_root w) [''Sysnative'', ''WindowsPowerShell'', ''v1.0'', ''powershell.exe'']"

definition resolve_powershell_path :: "os_world \<Rightarrow> string" where
  "resolve_powershell_path w =
     (if path_exists w (ps_system32 w) then ps_system32 w
      else if path_exists w (ps_sysnative w) then ps_sysnative w
      else ''powershell'')"

subsection \<open>\<^verbatim>\<open>run_powershell\<close>\<close>

definition powershell_cmd :: "os_world \<Rightarrow> string \<Rightarrow> string list" where
  "powershell_cmd w ps_script =
     [resolve_powershell_path w, ''-NoProfile'', ''-ExecutionPolicy'', ''Bypass'', ''-Command'',
      ps_script]"

text \<open>
  The result is the triple the function returns, or the exception that leaves it (only
  \<^verbatim>\<open>FileNotFoundError\<close> and \<^verbatim>\<open>TimeoutExpired\<close> are caught). The world that comes back
  has the started process appended to \<open>spawned\<close>.
\<close>

definition run_powershell ::
  "python \<Rightarrow> os_world \<Rightarrow> string \<Rightarrow> int
     \<Rightarrow> (py_exception + int \<times> string \<times> string) \<times> os_world" where
  "run_powershell py w ps_script timeout_sec =
     (let ps_exe = resolve_powershell_path w;
          cmd = powershell_cmd w ps_script;
          w' = w\<lparr>spawned := spawned w @ [cmd]\<rparr>
      in case subprocess_run w cmd timeout_sec of
           Inr p \<Rightarrow> (Inr (returncode p, str_strip py (stdout p), str_strip py (stderr p)), w')
         | Inl (FileNotFoundError m) \<Rightarrow>
             (Inr (127, [], ''PowerShell executable not found at: '' @ ps_exe), w')
         | Inl (TimeoutExpired m) \<Rightarrow>
             (Inr (124, [], ''PowerShell timed out after '' @ str_int timeout_sec @ '' seconds.''), w')
         | Inl e \<Rightarrow> (Inl e, w'))"

section \<open>The window\<close>

text \<open>
  The state of \<^verbatim>\<open>WinSatGUI\<close>: the widgets the methods read and write, the attribute
  \<^verbatim>\<open>raw_json\<close>, the clipboard, the background threads that are alive, the callbacks
  handed to \<^verbatim>\<open>after(0, ...)\<close> and not yet run, and whether the start-up timer
  \<^verbatim>\<open>after(200, self.refresh_scores)\<close> is still pending. \<open>field_vars\<close> is the
  dictionary \<^verbatim>\<open>self.fields\<close> of string variables and \<open>text_widget\<close> the log pane
  \<^verbatim>\<open>self.text\<close>. \<open>history\<close> records the effects in the order in which they happen.
\<close>

datatype widget_state = Normal | Disabled

datatype notice = ShowInfo string string | ShowError string string

datatype job = RefreshWorker | AssessmentWorker | RefreshAfterAssessment

datatype phase = Started | Invoking

datatype callback = QueryResult int string string | AssessmentDone int string string

datatype effect =
    Logged string
  | LogCleared
  | BusySet bool string
  | Shown notice
  | ThreadStarted job
  | Copied string

record gui =
  status_var :: string
  refresh_btn :: widget_state
  run_btn :: widget_state
  copy_btn :: widget_state
  cursor :: string
  field_vars :: "string \<rightharpoonup> string"
  text_widget :: string
  ps_path_var :: string
  raw_json :: "string option"
  clipboard :: "string option"
  threads :: "(job \<times> phase) list"
  after_queue :: "callback list"
  startup_timer :: bool
  history :: "effect list"

definition ellipsis :: string where
  "ellipsis = [CHR 0xE2, CHR 0x80, CHR 0xA6]"

definition APP_TITLE :: string where
  "APP_TITLE = ''WinSAT (Win32_WinSAT) Viewer '' @ [CHR 0xE2, CHR 0x80, CHR 0x94] @ '' Windows 10''"

definition set_busy :: "bool \<Rightarrow> string \<Rightarrow> gui \<Rightarrow> gui" where
  "set_busy busy msg g =
     (if busy then
        g\<lparr>status_var := (if msg \<noteq> [] then msg else ''Working'' @ ellipsis),
          refresh_btn := Disabled, run_btn := Disabled, copy_btn := Disabled,
          cursor := ''watch'', history := history g @ [BusySet True msg]\<rparr>
      else
        g\<lparr>status_var := (if msg \<noteq> [] then msg else ''Ready.''),
          refresh_btn := Normal, run_btn := Normal, copy_btn := Normal,
          cursor := [], history := history g @ [BusySet False msg]\<rparr>)"

definition gui_log :: "string \<Rightarrow> gui \<Rightarrow> gui" where
  "gui_log s g =
     g\<lparr>text_widget := text_widget g @ s @ [CHR 0x0A], history := history g @ [Logged s]\<rparr>"

definition clear_log :: "gui \<Rightarrow> gui" where
  "clear_log g = g\<lparr>text_widget := [], history := history g @ [LogCleared]\<rparr>"

definition showinfo :: "string \<Rightarrow> string \<Rightarrow> gui \<Rightarrow> gui" where
  "showinfo title msg g = g\<lparr>history := history g @ [Shown (ShowInfo title msg)]\<rparr>"

definition showerror :: "string \<Rightarrow> string \<Rightarrow> gui \<Rightarrow> gui" where
  "showerror title msg g = g\<lparr>history := history g @ [Shown (ShowError title msg)]\<rparr>"

definition start_thread :: "job \<Rightarrow> gui \<Rightarrow> gui" where
  "start_thread j g =
     g\<lparr>threads := threads g @ [(j, Started)], history := history g @ [ThreadStarted j]\<rparr>"

subsection \<open>\<^verbatim>\<open>_apply_scores\<close>\<close>

text \<open>
  A dictionary is an association list with one entry for each key; \<^verbatim>\<open>obj.get(key, None)\<close>
  is \<open>map_of obj key\<close>, with \<open>None\<close> and \<open>Some PNone\<close> both giving Python's \<^verbatim>\<open>None\<close>.
\<close>

definition mapping :: "(string \<times> string) list" where
  "mapping =
     [(''WinSPRLevel (Base Score)'', ''WinSPRLevel''),
      (''CPUScore'', ''CPUScore''),
      (''MemoryScore'', ''MemoryScore''),
      (''DiskScore'', ''DiskScore''),
      (''GraphicsScore'', ''GraphicsScore''),
      (''D3DScore'', ''D3DScore''),
      (''WinSATAssessmentState'', ''WinSATAssessmentState''),
      (''TimeTaken'', ''TimeTaken'')]"

definition dict_get :: "(string \<times> pyval) list \<Rightarrow> string \<Rightarrow> pyval" where
  "dict_get obj key = (case map_of obj key of None \<Rightarrow> PNone | Some v \<Rightarrow> v)"

definition field_text :: "python \<Rightarrow> string \<Rightarrow> pyval \<Rightarrow> string" where
  "field_text py key val =
     (if val = PNone then ''-''
      else if key = ''WinSATAssessmentState'' then decode_assessment_state py val
      else py_str py val)"

text \<open>One round of the loop: the variable of \<open>ui_label\<close> is set.\<close>

definition set_field ::
  "python \<Rightarrow> (string \<times> pyval) list \<Rightarrow> string \<times> string
     \<Rightarrow> (string \<rightharpoonup> string) \<Rightarrow> (string \<rightharpoonup> string)" where
  "set_field py obj item fs = fs(fst item \<mapsto> field_text py (snd item) (dict_get obj (snd item)))"

definition apply_scores :: "python \<Rightarrow> (string \<times> pyval) list \<Rightarrow> gui \<Rightarrow> gui" where
  "apply_scores py obj g = g\<lparr>field_vars := fold (set_field py obj) mapping (field_vars g)\<rparr>"

subsection \<open>\<^verbatim>\<open>copy_json\<close>\<close>

definition copy_json :: "gui \<Rightarrow> gui" where
  "copy_json g =
     (case raw_json g of
        None \<Rightarrow> showinfo APP_TITLE ''No JSON available yet. Click Refresh first.'' g
      | Some r \<Rightarrow>
          (if r = [] then showinfo APP_TITLE ''No JSON available yet. Click Refresh first.'' g
           else g\<lparr>clipboard := Some r, status_var := ''JSON copied to clipboard.'',
                  history := history g @ [Copied r]\<rparr>))"

subsection \<open>\<^verbatim>\<open>refresh_scores\<close> and \<^verbatim>\<open>_handle_query_result\<close>\<close>

definition refresh_scores :: "gui \<Rightarrow> gui" where
  "refresh_scores g =
     start_thread RefreshWorker (set_busy True (''Querying Win32_WinSAT'' @ ellipsis) g)"

text \<open>
  Lines 270 to 274: the text is decoded by \<^verbatim>\<open>json.loads\<close> (a parameter here: it returns
  a value or raises), a non-empty list is replaced by its first element, and anything
  but a dictionary raises \<^verbatim>\<open>ValueError\<close>.
\<close>

definition unwrap_list :: "pyval \<Rightarrow> pyval" where
  "unwrap_list obj = (case obj of PList (x # xs) \<Rightarrow> x | _ \<Rightarrow> obj)"

definition decode_object ::
  "(string \<Rightarrow> py_exception + pyval) \<Rightarrow> string \<Rightarrow> py_exception + (string \<times> pyval) list" where
  "decode_object loads out =
     (case loads out of
        Inl e \<Rightarrow> Inl e
      | Inr obj \<Rightarrow>
          (case unwrap_list obj of
             PDict d \<Rightarrow> Inr d
           | _ \<Rightarrow> Inl (ValueError ''Unexpected JSON structure (not an object).'')))"

definition handle_query_result ::
  "python \<Rightarrow> (string \<Rightarrow> py_exception + pyval) \<Rightarrow> int \<Rightarrow> string \<Rightarrow> string \<Rightarrow> gui \<Rightarrow> gui" where
  "handle_query_result py loads rc out err g =
     set_busy False []
       (if rc \<noteq> 0 then
          (let g = gui_log (''[ERROR] PowerShell exit code: '' @ str_int rc) g;
               g = (if err \<noteq> [] then gui_log err g else g);
               g = (if out \<noteq> [] then gui_log out g else g)
           in showerror APP_TITLE
                (''Failed to query Win32_WinSAT.'' @ [CHR 0x0A] @ ''See log for details.'') g)
        else if out = [] then
          showerror APP_TITLE ''PowerShell returned no output.''
            (gui_log ''[ERROR] Empty output.'' g)
        else
          (let g = g\<lparr>raw_json := Some out\<rparr>;
               g = gui_log ''Raw JSON:'' g;
               g = gui_log out g
           in case decode_object loads out of
                Inr obj \<Rightarrow> (apply_scores py obj g)\<lparr>status_var := ''WinSAT scores updated.''\<rparr>
              | Inl e \<Rightarrow>
                  showerror APP_TITLE
                    (''Could not parse/display results:'' @ [CHR 0x0A] @ exc_str e)
                    (gui_log (''[ERROR] '' @ exc_str e) g)))"

subsection \<open>\<^verbatim>\<open>run_assessment\<close>\<close>

definition run_assessment :: "gui \<Rightarrow> gui" where
  "run_assessment g =
     start_thread AssessmentWorker (set_busy True (''Running WinSAT formal'' @ ellipsis) g)"

text \<open>The inner function \<^verbatim>\<open>done\<close>, run on the window's thread with the worker's result.\<close>

definition assessment_done :: "int \<Rightarrow> string \<Rightarrow> string \<Rightarrow> gui \<Rightarrow> gui" where
  "assessment_done rc out err g =
     (if rc \<noteq> 0 then
        (let g = gui_log (''[ERROR] WinSAT exit code: '' @ str_int rc) g;
             g = (if err \<noteq> [] then gui_log err g else g);
             g = (if out \<noteq> [] then gui_log out g else g);
             g = showerror APP_TITLE
                   (''WinSAT assessment failed.'' @ [CHR 0x0A]
                    @ ''Try running this program from an elevated (Admin) terminal.'' @ [CHR 0x0A]
                    @ ''See log for details.'') g
         in set_busy False ''Ready.'' g)
      else
        (let g = (if out \<noteq> [] then gui_log out (gui_log ''WinSAT output:'' g) else g);
             g = (if err \<noteq> [] then gui_log err (gui_log ''WinSAT stderr:'' g) else g);
             g = gui_log ([CHR 0x0A] @ ''Re-querying Win32_WinSAT'' @ ellipsis @ [CHR 0x0A]) g;
             g = set_busy True (''Re-querying Win32_WinSAT'' @ ellipsis) g
         in start_thread RefreshAfterAssessment g))"

subsection \<open>The worker threads\<close>

text \<open>What a worker does before it calls \<^verbatim>\<open>run_powershell\<close>.\<close>

fun worker_begin :: "job \<Rightarrow> gui \<Rightarrow> gui" where
  "worker_begin RefreshWorker g =
     gui_log (''Querying Win32_WinSAT via PowerShell'' @ ellipsis) (clear_log g)"
| "worker_begin AssessmentWorker g =
     (let g = clear_log g;
          g = gui_log (''Running: winsat formal '' @ ellipsis) g
      in gui_log (''Note: this can take a while and may require Administrator privileges.''
                  @ [CHR 0x0A]) g)"
| "worker_begin RefreshAfterAssessment g = g"

text \<open>The callback a worker hands to \<^verbatim>\<open>after(0, ...)\<close> once \<^verbatim>\<open>run_powershell\<close> has returned.\<close>

fun worker_callback :: "job \<Rightarrow> int \<Rightarrow> string \<Rightarrow> string \<Rightarrow> callback" where
  "worker_callback RefreshWorker rc out err = QueryResult rc out err"
| "worker_callback AssessmentWorker rc out err = AssessmentDone rc out err"
| "worker_callback RefreshAfterAssessment rc out err = QueryResult rc out err"

fun run_callback ::
  "python \<Rightarrow> (string \<Rightarrow> py_exception + pyval) \<Rightarrow> callback \<Rightarrow> gui \<Rightarrow> gui" where
  "run_callback py loads (QueryResult rc out err) g = handle_query_result py loads rc out err g"
| "run_callback py loads (AssessmentDone rc out err) g = assessment_done rc out err g"

subsection \<open>The window at start-up\<close>

definition init :: "os_world \<Rightarrow> gui" where
  "init w =
     set_busy False []
       \<lparr>status_var = ''Ready.'',
        refresh_btn = Normal, run_btn = Normal, copy_btn = Normal,
        cursor = [],
        field_vars = map_of (map (\<lambda>item. (fst item, ''-'')) mapping),
        text_widget = [],
        ps_path_var = ''PowerShell: '' @ resolve_powershell_path w,
        raw_json = None,
        clipboard = None,
        threads = [],
        after_queue = [],
        startup_timer = True,
        history = []\<rparr>"

subsection \<open>Events\<close>

text \<open>
  What can happen to the window, one event at a time: a click on one of the three
  buttons (a disabled button does not call its command), the start-up timer firing, a
  worker thread running its first statements, a worker's call of \<^verbatim>\<open>run_powershell\<close>
  coming back with a triple or with an exception, and the event loop running the oldest
  pending callback. A worker that ends with an exception hands over no callback. Which
  script and timeout a worker passes to \<^verbatim>\<open>run_powershell\<close> does not enter the state of
  the window: the event carries what the call returned. Every callback runs to its end
  before the next event; the event loop that a message box runs while it is open is not
  modelled.
\<close>

datatype button = RefreshBtn | RunBtn | CopyBtn

datatype event =
    Click button
  | TimerFires
  | ThreadRuns nat
  | ThreadReturns nat "py_exception + int \<times> string \<times> string"
  | RunPending

definition remove_nth :: "nat \<Rightarrow> 'a list \<Rightarrow> 'a list" where
  "remove_nth i xs = take i xs @ drop (Suc i) xs"

fun step ::
  "python \<Rightarrow> (string \<Rightarrow> py_exception + pyval) \<Rightarrow> event \<Rightarrow> gui \<Rightarrow> gui" where
  "step py loads (Click RefreshBtn) g = (if refresh_btn g = Normal then refresh_scores g else g)"
| "step py loads (Click RunBtn) g = (if run_btn g = Normal then run_assessment g else g)"
| "step py loads (Click CopyBtn) g = (if copy_btn g = Normal then copy_json g else g)"
| "step py loads TimerFires g =
     (if startup_timer g then refresh_scores (g\<lparr>startup_timer := False\<rparr>) else g)"
| "step py loads (ThreadRuns i) g =
     (if i < length (threads g) \<and> snd (threads g ! i) = Started
      then worker_begin (fst (threads g ! i)) (g\<lparr>threads := (threads g)[i := (fst (threads g ! i), Invoking)]\<rparr>)
      else g)"
| "step py loads (ThreadReturns i r) g =
     (if i < length (threads g) \<and> snd (threads g ! i) = Invoking
      then (case r of
              Inl e \<Rightarrow> g\<lparr>threads := remove_nth i (threads g)\<rparr>
            | Inr (rc, out, err) \<Rightarrow>
                g\<lparr>threads := remove_nth i (threads g),
                  after_queue := after_queue g @ [worker_callback (fst (threads g ! i)) rc out err]\<rparr>)
      else g)"
| "step py loads RunPending g =
     (case after_queue g of
        [] \<Rightarrow> g
      | cb # rest \<Rightarrow> run_callback py loads cb (g\<lparr>after_queue := rest\<rparr>))"

definition run ::
  "python \<Rightarrow> (string \<Rightarrow> py_exception + pyval) \<Rightarrow> event list \<Rightarrow> gui \<Rightarrow> gui" where
  "run py loads evs g = fold (step py loads) evs g"

definition ready :: "gui \<Rightarrow> bool" where
  "ready g \<longleftrightarrow> refresh_btn g = Normal \<and> run_btn g = Normal \<and> copy_btn g = Normal"

definition busy :: "gui \<Rightarrow> bool" where
  "busy g \<longleftrightarrow> refresh_btn g = Disabled \<and> run_btn g = Disabled \<and> copy_btn g = Disabled"

section \<open>Sample environments\<close>

text \<open>
  A world without the variable \<^verbatim>\<open>SystemRoot\<close>, in which exactly the listed paths exist,
  paths are joined with a backslash (as \<^verbatim>\<open>os.path.join\<close> does on Windows under a root
  that ends neither in a separator nor in a colon), and every started process ends in
  the given way.
\<close>

definition sample_world :: "string list \<Rightarrow> (py_exception + completed_process) \<Rightarrow> os_world" where
  "sample_world existing outcome =
     \<lparr>environ = Map.empty,
      path_join = (\<lambda>root parts. join [CHR 0x5C] (root # parts)),
      path_exists = (\<lambda>p. p \<in> set existing),
      subprocess_run = (\<lambda>cmd t. outcome),
      spawned = []\<rparr>"

text \<open>
  A stand-in for the interpreter in the examples. It agrees with the interpreter on the
  texts the examples use: \<^verbatim>\<open>int\<close> gives 1 on \<^verbatim>\<open>" 1 "\<close>, 7 on \<^verbatim>\<open>"007"\<close> and raises on
  \<^verbatim>\<open>"abc"\<close>; \<^verbatim>\<open>strip\<close> turns \<^verbatim>\<open>" {} "\<close> into \<^verbatim>\<open>"{}"\<close> and leaves the empty text as it
  is.
\<close>

definition sample_python :: python where
  "sample_python =
     \<lparr>int_of_str = (\<lambda>s. if s = '' 1 '' then Some 1 else if s = ''007'' then Some 7 else None),
      str_strip = (\<lambda>s. if s = '' {} '' then ''{}'' else s),
      repr_of_str = (\<lambda>s. [CHR 0x27] @ s @ [CHR 0x27])\<rparr>"

text \<open>What \<^verbatim>\<open>json.loads\<close> returns on a handful of texts; on every other text this sample raises.\<close>

definition sample_loads :: "string \<Rightarrow> py_exception + pyval" where
  \<open>sample_loads s =
     (if s = ''{}'' then Inr (PDict [])
      else if s = ''[]'' then Inr (PList [])
      else if s = ''42'' then Inr (PInt 42)
      else if s = ''{"CPUScore": 7}'' then Inr (PDict [(''CPUScore'', PInt 7)])
      else if s = ''[{"CPUScore": 7}, {"CPUScore": 9}]''
        then Inr (PList [PDict [(''CPUScore'', PInt 7)], PDict [(''CPUScore'', PInt 9)]])
      else Inl (JSONDecodeError ''Expecting value: line 1 column 1 (char 0)''))\<close>

text \<open>The window right after start-up, in a world without PowerShell.\<close>

definition sample_gui :: gui where
  "sample_gui = init (sample_world [] (Inl (FileNotFoundError [])))"

definition windows_path :: "string list \<Rightarrow> string" where
  "windows_path parts = join [CHR 0x5C] parts"

section \<open>The busy state as a guard\<close>

text \<open>
  The condition the buttons maintain once the start-up timer is out of the way: the
  window is either ready with nothing in the background, or busy with at most one worker
  (alive, or returned with its callback still pending).
\<close>

definition busy_inv :: "gui \<Rightarrow> bool" where
  "busy_inv g \<longleftrightarrow>
     \<not> startup_timer g
     \<and> ((ready g \<and> threads g = [] \<and> after_queue g = [])
        \<or> (busy g \<and> length (threads g) + length (after_queue g) \<le> 1))"

section \<open>Auxiliary facts\<close>

lemmas gui_defs = init_def set_busy_def gui_log_def clear_log_def showinfo_def showerror_def
  start_thread_def refresh_scores_def run_assessment_def copy_json_def ready_def busy_def

lemma sample_python_examples:
  "int_of_str sample_python '' 1 '' = Some 1"
  "int_of_str sample_python ''abc'' = None"
  "int_of_str sample_python ''007'' = Some 7"
  "str_strip sample_python '' {} '' = ''{}''"
  "str_strip sample_python [] = []"
  by (simp_all add: sample_python_def)

lemma str_int_examples:
  "str_int 0 = ''0''" "str_int 1 = ''1''" "str_int 7 = ''7''" "str_int 30 = ''30''"
  "str_int (- 12) = ''-12''"
  by (simp_all add: str_int_def str_nat.simps digit_char_def)

lemma set_field_apply:
  "set_field py obj item fs l =
     (if l = fst item then Some (field_text py (snd item) (dict_get obj (snd item))) else fs l)"
  by (simp add: set_field_def)

lemma fold_set_field_notin:
  "l \<notin> fst ` set items \<Longrightarrow> fold (set_field py obj) items fs l = fs l"
  by (induction items arbitrary: fs) (auto simp: set_field_apply)

lemma fold_set_field_in:
  "distinct (map fst items) \<Longrightarrow> (l, k) \<in> set items \<Longrightarrow>
   fold (set_field py obj) items fs l = Some (field_text py k (dict_get obj k))"
proof (induction items arbitrary: fs)
  case Nil
  then show ?case by simp
next
  case (Cons item items)
  show ?case
  proof (cases "(l, k) = item")
    case True
    with Cons.prems have "l \<notin> fst ` set items" by force
    then have "fold (set_field py obj) items (set_field py obj item fs) l = set_field py obj item fs l"
      by (rule fold_set_field_notin)
    also have "\<dots> = Some (field_text py k (dict_get obj k))"
      using True by (auto simp: set_field_apply)
    finally show ?thesis by simp
  next
    case False
    with Cons show ?thesis by auto
  qed
qed

lemma distinct_mapping: "distinct (map fst mapping)"
  by (simp add: mapping_def)

lemma field_vars_apply_scores:
  "(l, k) \<in> set mapping \<Longrightarrow>
   field_vars (apply_scores py obj g) l = Some (field_text py k (dict_get obj k))"
  by (simp add: apply_scores_def fold_set_field_in [OF distinct_mapping])

lemma handle_ready: "ready (handle_query_result py loads rc out err g)"
  by (simp add: handle_query_result_def set_busy_def ready_def)


lemma handle_parse_error:
  "out \<noteq> [] \<Longrightarrow> decode_object loads out = Inl e \<Longrightarrow>
   handle_query_result py loads 0 out err g =
     g\<lparr>status_var := ''Ready.'', refresh_btn := Normal, run_btn := Normal, copy_btn := Normal,
       cursor := [],
       text_widget := text_widget g @ ''Raw JSON:'' @ [CHR 0x0A] @ out @ [CHR 0x0A]
                        @ ''[ERROR] '' @ exc_str e @ [CHR 0x0A],
       raw_json := Some out,
       history := history g @ [Logged ''Raw JSON:'', Logged out, Logged (''[ERROR] '' @ exc_str e),
                               Shown (ShowError APP_TITLE
                                 (''Could not parse/display results:'' @ [CHR 0x0A] @ exc_str e)),
                               BusySet False []]\<rparr>"
  by (simp add: handle_query_result_def set_busy_def gui_log_def showerror_def Let_def)

lemma handle_success:
  "out \<noteq> [] \<Longrightarrow> decode_object loads out = Inr d \<Longrightarrow>
   handle_query_result py loads 0 out err g =
     g\<lparr>status_var := ''Ready.'', refresh_btn := Normal, run_btn := Normal, copy_btn := Normal,
       cursor := [],
       field_vars := fold (set_field py d) mapping (field_vars g),
       text_widget := text_widget g @ ''Raw JSON:'' @ [CHR 0x0A] @ out @ [CHR 0x0A],
       raw_json := Some out,
       history := history g @ [Logged ''Raw JSON:'', Logged out, BusySet False []]\<rparr>"
  by (simp add: handle_query_result_def set_busy_def gui_log_def apply_scores_def Let_def)

lemma sample_gui_ready:
  "ready sample_gui" "threads sample_gui = []" "after_queue sample_gui = []"
  "raw_json sample_gui = None" "history sample_gui = [BusySet False []]"
  by (simp_all add: sample_gui_def gui_defs)

lemma sample_loads_examples:
  "sample_loads ''{}'' = Inr (PDict [])"
  "sample_loads ''[]'' = Inr (PList [])"
  "sample_loads ''42'' = Inr (PInt 42)"
  "sample_loads ''not json'' = Inl (JSONDecodeError ''Expecting value: line 1 column 1 (char 0)'')"
  by (simp_all add: sample_loads_def)

lemma sample_world_paths:
  "ps_system32 (sample_world ex outcome)
     = windows_path [''C:'', ''Windows'', ''System32'', ''WindowsPowerShell'', ''v1.0'', ''powershell.exe'']"
  "ps_sysnative (sample_world ex outcome)
     = windows_path [''C:'', ''Windows'', ''Sysnative'', ''WindowsPowerShell'', ''v1.0'', ''powershell.exe'']"
  by (simp_all add: ps_system32_def ps_sysnative_def system_root_def sample_world_def windows_path_def)

lemma windows_path_distinct:
  "windows_path [''C:'', ''Windows'', ''System32'', ''WindowsPowerShell'', ''v1.0'', ''powershell.exe'']
   \<noteq> windows_path [''C:'', ''Windows'', ''Sysnative'', ''WindowsPowerShell'', ''v1.0'', ''powershell.exe'']"
  by (simp add: windows_path_def)


lemma click_disabled: "busy g \<Longrightarrow> step py loads (Click b) g = g"
  by (cases b) (simp_all add: busy_def)

lemma worker_begin_frame:
  "threads (worker_begin j g) = threads g" "after_queue (worker_begin j g) = after_queue g"
  "startup_timer (worker_begin j g) = startup_timer g"
  "refresh_btn (worker_begin j g) = refresh_btn g" "run_btn (worker_begin j g) = run_btn g"
  "copy_btn (worker_begin j g) = copy_btn g"
  by (cases j; simp add: gui_log_def clear_log_def Let_def)+

lemma handle_query_result_frame:
  "threads (handle_query_result py loads rc out err g) = threads g"
  "after_queue (handle_query_result py loads rc out err g) = after_queue g"
  "startup_timer (handle_query_result py loads rc out err g) = startup_timer g"
  by (simp_all add: handle_query_result_def set_busy_def gui_log_def showerror_def apply_scores_def
      Let_def split: sum.splits)

lemma assessment_done_frame:
  "after_queue (assessment_done rc out err g) = after_queue g"
  "startup_timer (assessment_done rc out err g) = startup_timer g"
  "rc \<noteq> 0 \<Longrightarrow> threads (assessment_done rc out err g) = threads g"
  "rc \<noteq> 0 \<Longrightarrow> ready (assessment_done rc out err g)"
  "rc = 0 \<Longrightarrow> threads (assessment_done rc out err g) = threads g @ [(RefreshAfterAssessment, Started)]"
  "rc = 0 \<Longrightarrow> busy (assessment_done rc out err g)"
  by (simp_all add: assessment_done_def set_busy_def gui_log_def showerror_def start_thread_def
      ready_def busy_def Let_def)

text \<open>
  Every event keeps this condition: with the start-up timer out of the way, only an
  enabled button starts a worker, and the buttons are enabled only when nothing is left
  in the background.
\<close>

lemma busy_inv_step: "busy_inv g \<Longrightarrow> busy_inv (step py loads ev g)"
proof (cases ev)
  case (Click b)
  assume "busy_inv g"
  then show ?thesis using Click
    by (cases b)
      (auto simp: busy_inv_def ready_def busy_def refresh_scores_def run_assessment_def
        copy_json_def showinfo_def set_busy_def start_thread_def split: option.splits)
next
  case TimerFires
  assume "busy_inv g"
  then show ?thesis using TimerFires by (simp add: busy_inv_def)
next
  case (ThreadRuns i)
  assume "busy_inv g"
  then show ?thesis using ThreadRuns
    by (auto simp: busy_inv_def worker_begin_frame ready_def busy_def)
next
  case (ThreadReturns i r)
  assume "busy_inv g"
  then show ?thesis using ThreadReturns
    by (auto simp: busy_inv_def remove_nth_def ready_def busy_def split: sum.splits)
next
  case RunPending
  assume inv: "busy_inv g"
  show ?thesis
  proof (cases "after_queue g")
    case Nil
    with inv RunPending show ?thesis by simp
  next
    case (Cons cb rest)
    with inv have b: "busy g" "threads g = []" "rest = []" "\<not> startup_timer g"
      by (auto simp: busy_inv_def)
    show ?thesis
    proof (cases cb)
      case (QueryResult rc out err)
      with Cons RunPending b show ?thesis
        by (simp add: busy_inv_def handle_query_result_frame handle_ready)
    next
      case (AssessmentDone rc out err)
      with Cons RunPending b show ?thesis
        by (cases "rc = 0") (simp_all add: busy_inv_def assessment_done_frame)
    qed
  qed
qed

lemma busy_inv_run: "busy_inv g \<Longrightarrow> busy_inv (run py loads evs g)"
  unfolding run_def by (induction evs arbitrary: g) (simp_all add: busy_inv_step)

text \<open>
  When the start-up timer fires before anything else happens, no later state has more
  than one worker alive.
\<close>

lemma one_worker_after_startup:
  "length (threads (run py loads (TimerFires # evs) (init w))) \<le> 1"
proof -
  have "busy_inv (step py loads TimerFires (init w))"
    by (simp add: busy_inv_def init_def busy_def refresh_scores_def set_busy_def start_thread_def)
  then have "busy_inv (run py loads evs (step py loads TimerFires (init w)))"
    by (rule busy_inv_run)
  then show ?thesis
    by (auto simp: busy_inv_def run_def)
qed

section \<open>The assessment-state label (C1)\<close>

text \<open>
  C1, as amended. For every value \<open>v\<close> handed to the decoder, whatever the
  interpreter's \<^verbatim>\<open>int\<close> does on texts: when \<^verbatim>\<open>int(v)\<close> gives 1 the result is exactly
  \<^verbatim>\<open>1 (Valid/Completed)\<close>; when it gives 0 the result is exactly
  \<^verbatim>\<open>0 (Not run/Unknown)\<close> (the label is followed by a closing parenthesis); when it gives
  any other integer \<open>n\<close> the result is the decimal text of \<open>n\<close> followed by
  \<^verbatim>\<open> (Unknown meaning)\<close>; and exactly when \<^verbatim>\<open>int(v)\<close> raises, the result is \<^verbatim>\<open>str(v)\<close>
  unchanged. In particular an integer is labelled by itself, a boolean as 1 or 0, a
  float by its integer part, a text on which \<^verbatim>\<open>int\<close> raises is returned as it is, and
  \<^verbatim>\<open>None\<close>, lists and dictionaries are returned in their string form.
\<close>

theorem decode_assessment_state_labels:
  "(py_int py v = Some 1 \<longrightarrow> decode_assessment_state py v = ''1 (Valid/Completed)'')
   \<and> (py_int py v = Some 0 \<longrightarrow> decode_assessment_state py v = ''0 (Not run/Unknown)'')
   \<and> (\<forall>n. py_int py v = Some n \<and> n \<noteq> 1 \<and> n \<noteq> 0 \<longrightarrow>
          decode_assessment_state py v = str_int n @ '' (Unknown meaning)'')
   \<and> (py_int py v = None \<longrightarrow> decode_assessment_state py v = py_str py v)
   \<and> (\<forall>i. py_int py (PInt i) = Some i)
   \<and> (\<forall>b. py_int py (PBool b) = Some (if b then 1 else 0))
   \<and> (\<forall>io r. py_int py (PFloat io r) = io \<and> py_str py (PFloat io r) = r)
   \<and> (\<forall>s. py_int py (PStr s) = int_of_str py s \<and> py_str py (PStr s) = s)
   \<and> py_int py PNone = None
   \<and> (\<forall>xs. py_int py (PList xs) = None)
   \<and> (\<forall>kvs. py_int py (PDict kvs) = None)
   \<and> decode_assessment_state py (PInt 7) = ''7 (Unknown meaning)''
   \<and> decode_assessment_state py (PInt (- 12)) = ''-12 (Unknown meaning)''
   \<and> decode_assessment_state py (PBool True) = ''1 (Valid/Completed)''
   \<and> decode_assessment_state py PNone = ''None''
   \<and> decode_assessment_state py (PList []) = ''[]''
   \<and> decode_assessment_state py (PDict []) = ''{}''"
  by (simp add: decode_assessment_state_def str_int_examples)

text \<open>
  The four cases at the inputs \<^verbatim>\<open>" 1 "\<close>, \<^verbatim>\<open>False\<close>, \<^verbatim>\<open>"007"\<close> and \<^verbatim>\<open>"abc"\<close>.
\<close>

theorem decode_assessment_state_labels_witness:
  "py_int sample_python (PStr '' 1 '') = Some 1
   \<and> decode_assessment_state sample_python (PStr '' 1 '') = ''1 (Valid/Completed)''
   \<and> py_int sample_python (PBool False) = Some 0
   \<and> decode_assessment_state sample_python (PBool False) = ''0 (Not run/Unknown)''
   \<and> py_int sample_python (PStr ''007'') = Some 7
   \<and> decode_assessment_state sample_python (PStr ''007'') = ''7 (Unknown meaning)''
   \<and> py_int sample_python (PStr ''abc'') = None
   \<and> decode_assessment_state sample_python (PStr ''abc'') = ''abc''"
  using decode_assessment_state_labels [of sample_python "PStr '' 1 ''"]
        decode_assessment_state_labels [of sample_python "PBool False"]
        decode_assessment_state_labels [of sample_python "PStr ''007''"]
        decode_assessment_state_labels [of sample_python "PStr ''abc''"]
  by (simp add: sample_python_examples str_int_examples)

text \<open>
  C1 as it is worded fails, whatever the interpreter: the labels for 1 and 0 end in a
  closing parenthesis, not in \<^verbatim>\<open>Valid/Completed\<close> or \<^verbatim>\<open>Not run/Unknown\<close>, and the float
  1.5, which is not an integer, is not returned as \<^verbatim>\<open>1.5\<close> but labelled by its integer
  part.
\<close>

theorem decode_assessment_state_counterexample:
  "py_int sample_python (PInt 1) = Some 1
   \<and> \<not> suffix ''Valid/Completed'' (decode_assessment_state sample_python (PInt 1))
   \<and> py_int sample_python (PInt 0) = Some 0
   \<and> \<not> suffix ''Not run/Unknown'' (decode_assessment_state sample_python (PInt 0))
   \<and> py_str sample_python (PFloat (Some 1) ''1.5'') = ''1.5''
   \<and> decode_assessment_state sample_python (PFloat (Some 1) ''1.5'') = ''1 (Valid/Completed)''"
  by (simp add: decode_assessment_state_def suffix_to_prefix)

section \<open>One worker at a time, and the start-up refresh (C2)\<close>

text \<open>
  C2 says that in every reachable state at most one background invocation is in flight
  and that a Refresh or Run Assessment trigger while busy starts nothing. The buttons
  do refuse a click while busy (\<open>click_disabled\<close>), and the bound holds once the
  start-up timer has fired (\<open>one_worker_after_startup\<close>). The start-up refresh itself
  is not guarded: when the user clicks Refresh before the timer of
  \<^verbatim>\<open>after(200, self.refresh_scores)\<close> fires, the window is busy with one worker, and the
  timer then starts a second one.
\<close>

theorem startup_refresh_unguarded:
  "ready (init w)
   \<and> busy (run py loads [Click RefreshBtn] (init w))
   \<and> threads (run py loads [Click RefreshBtn] (init w)) = [(RefreshWorker, Started)]
   \<and> busy (run py loads [Click RefreshBtn, TimerFires] (init w))
   \<and> threads (run py loads [Click RefreshBtn, TimerFires] (init w))
       = [(RefreshWorker, Started), (RefreshWorker, Started)]"
  by (simp add: run_def init_def ready_def busy_def refresh_scores_def set_busy_def start_thread_def)

section \<open>Run Assessment and the chained query (C3)\<close>

text \<open>
  What the callback of the assessment worker does, in every state: with exit status 0 it
  logs the output, sets the window busy and starts the follow-up query thread as its
  last effect; with any other exit status it logs, shows the failure notice, sets the
  window ready and starts nothing.
\<close>

lemma assessment_done_effects:
  "(rc = 0 \<longrightarrow>
      threads (assessment_done rc out err g) = threads g @ [(RefreshAfterAssessment, Started)]
      \<and> busy (assessment_done rc out err g)
      \<and> history (assessment_done rc out err g)
        = history g
          @ (if out \<noteq> [] then [Logged ''WinSAT output:'', Logged out] else [])
          @ (if err \<noteq> [] then [Logged ''WinSAT stderr:'', Logged err] else [])
          @ [Logged ([CHR 0x0A] @ ''Re-querying Win32_WinSAT'' @ ellipsis @ [CHR 0x0A]),
             BusySet True (''Re-querying Win32_WinSAT'' @ ellipsis),
             ThreadStarted RefreshAfterAssessment])
   \<and> (rc \<noteq> 0 \<longrightarrow>
      threads (assessment_done rc out err g) = threads g
      \<and> ready (assessment_done rc out err g)
      \<and> history (assessment_done rc out err g)
        = history g
          @ [Logged (''[ERROR] WinSAT exit code: '' @ str_int rc)]
          @ (if err \<noteq> [] then [Logged err] else [])
          @ (if out \<noteq> [] then [Logged out] else [])
          @ [Shown (ShowError APP_TITLE
               (''WinSAT assessment failed.'' @ [CHR 0x0A]
                @ ''Try running this program from an elevated (Admin) terminal.'' @ [CHR 0x0A]
                @ ''See log for details.'')),
             BusySet False ''Ready.''])"
  by (simp add: assessment_done_def ready_def busy_def set_busy_def start_thread_def
      gui_log_def showerror_def Let_def)

text \<open>
  With the start-up timer out of the way, the window is busy for as long as a worker is
  alive or a callback is pending, whatever else happens: no run returns to Ready between
  the start of the assessment and the start of the follow-up query.
\<close>

lemma busy_while_in_background:
  "busy_inv g \<Longrightarrow>
   threads (run py loads evs g) \<noteq> [] \<or> after_queue (run py loads evs g) \<noteq> [] \<Longrightarrow>
   busy (run py loads evs g)"
  using busy_inv_run [of g py loads evs] by (auto simp: busy_inv_def)

text \<open>
  C3 says that the follow-up query is dispatched exactly when the assessment returned
  exit status 0, after the output has been logged and without the state returning to
  Ready in between, and that a non-zero exit status ends in a notice and in Ready. The
  callback does this (\<open>assessment_done_effects\<close>), and with the start-up timer out
  of the way the window stays busy in between (\<open>busy_while_in_background\<close>). The
  start-up refresh breaks the last part: when the user clicks Run Assessment before the
  timer of \<^verbatim>\<open>after(200, self.refresh_scores)\<close> fires, the timer starts a query next to the
  assessment; the query's handler sets the window ready while the assessment is still on
  its way, and only then does the assessment's callback start the follow-up query.
\<close>

theorem assessment_requery_after_ready:
  "busy (run py sample_loads [Click RunBtn] (init w))
   \<and> threads (run py sample_loads [Click RunBtn, TimerFires] (init w))
       = [(AssessmentWorker, Started), (RefreshWorker, Started)]
   \<and> ready (run py sample_loads
        [Click RunBtn, TimerFires, ThreadRuns 0, ThreadRuns 1,
         ThreadReturns 1 (Inr (0, ''{}'', [])), ThreadReturns 0 (Inr (0, ''done'', [])),
         RunPending] (init w))
   \<and> after_queue (run py sample_loads
        [Click RunBtn, TimerFires, ThreadRuns 0, ThreadRuns 1,
         ThreadReturns 1 (Inr (0, ''{}'', [])), ThreadReturns 0 (Inr (0, ''done'', [])),
         RunPending] (init w))
       = [AssessmentDone 0 ''done'' []]
   \<and> threads (run py sample_loads
        [Click RunBtn, TimerFires, ThreadRuns 0, ThreadRuns 1,
         ThreadReturns 1 (Inr (0, ''{}'', [])), ThreadReturns 0 (Inr (0, ''done'', [])),
         RunPending, RunPending] (init w))
       = [(RefreshAfterAssessment, Started)]
   \<and> history (run py sample_loads
        [Click RunBtn, TimerFires, ThreadRuns 0, ThreadRuns 1,
         ThreadReturns 1 (Inr (0, ''{}'', [])), ThreadReturns 0 (Inr (0, ''done'', [])),
         RunPending, RunPending] (init w))
       = [BusySet False [],
          BusySet True (''Running WinSAT formal'' @ ellipsis), ThreadStarted AssessmentWorker,
          BusySet True (''Querying Win32_WinSAT'' @ ellipsis), ThreadStarted RefreshWorker,
          LogCleared, Logged (''Running: winsat formal '' @ ellipsis),
          Logged (''Note: this can take a while and may require Administrator privileges.''
                  @ [CHR 0x0A]),
          LogCleared, Logged (''Querying Win32_WinSAT via PowerShell'' @ ellipsis),
          Logged ''Raw JSON:'', Logged ''{}'', BusySet False [],
          Logged ''WinSAT output:'', Logged ''done'',
          Logged ([CHR 0x0A] @ ''Re-querying Win32_WinSAT'' @ ellipsis @ [CHR 0x0A]),
          BusySet True (''Re-querying Win32_WinSAT'' @ ellipsis),
          ThreadStarted RefreshAfterAssessment]"
  by (simp add: run_def gui_defs remove_nth_def handle_query_result_def assessment_done_def
      decode_object_def unwrap_list_def sample_loads_examples apply_scores_def Let_def)

section \<open>Failures of the result interpreter (C4)\<close>



section \<open>Only the first element of a list is used (C5)\<close>

text \<open>
  C5. When a text decodes to a non-empty list whose first element is a dictionary, and
  another text decodes to that dictionary alone, both are interpreted alike: the same
  object comes out, and the handler displays the same fields, leaves the same status
  and shows the same notices.
\<close>

theorem first_element_only:
  "loads t = Inr (PList (PDict d # rest)) \<Longrightarrow> loads t1 = Inr (PDict d) \<Longrightarrow>
   decode_object loads t = decode_object loads t1
   \<and> (t \<noteq> [] \<and> t1 \<noteq> [] \<longrightarrow>
        field_vars (handle_query_result py loads 0 t err g)
          = field_vars (handle_query_result py loads 0 t1 err g)
        \<and> status_var (handle_query_result py loads 0 t err g)
          = status_var (handle_query_result py loads 0 t1 err g)
        \<and> filter (\<lambda>e. \<exists>n. e = Shown n) (history (handle_query_result py loads 0 t err g))
          = filter (\<lambda>e. \<exists>n. e = Shown n) (history (handle_query_result py loads 0 t1 err g)))"
proof -
  assume t: "loads t = Inr (PList (PDict d # rest))" and t1: "loads t1 = Inr (PDict d)"
  have d: "decode_object loads t = Inr d" "decode_object loads t1 = Inr d"
    using t t1 by (simp_all add: decode_object_def unwrap_list_def)
  then show ?thesis
    by (simp add: handle_success)
qed

text \<open>A list of two objects against its first object.\<close>

theorem first_element_only_witness:
  \<open>sample_loads ''[{"CPUScore": 7}, {"CPUScore": 9}]''
     = Inr (PList (PDict [(''CPUScore'', PInt 7)] # [PDict [(''CPUScore'', PInt 9)]]))
   \<and> sample_loads ''{"CPUScore": 7}'' = Inr (PDict [(''CPUScore'', PInt 7)])
   \<and> decode_object sample_loads ''[{"CPUScore": 7}, {"CPUScore": 9}]''
     = decode_object sample_loads ''{"CPUScore": 7}''
   \<and> field_vars (handle_query_result sample_python sample_loads 0 ''[{"CPUScore": 7}, {"CPUScore": 9}]'' [] sample_gui)
     = field_vars (handle_query_result sample_python sample_loads 0 ''{"CPUScore": 7}'' [] sample_gui)\<close>
proof -
  have a: \<open>sample_loads ''[{"CPUScore": 7}, {"CPUScore": 9}]''
     = Inr (PList (PDict [(''CPUScore'', PInt 7)] # [PDict [(''CPUScore'', PInt 9)]]))\<close>
    by (simp add: sample_loads_def)
  have b: \<open>sample_loads ''{"CPUScore": 7}'' = Inr (PDict [(''CPUScore'', PInt 7)])\<close>
    by (simp add: sample_loads_def)
  show ?thesis
    using a b first_element_only [OF a b, of sample_python "[]" sample_gui] by simp
qed

section \<open>What the score fields display (C6)\<close>

text \<open>
  C6, as amended. For every object and every recognized field: a field that is absent,
  or present with the value \<^verbatim>\<open>null\<close>, displays the placeholder \<^verbatim>\<open>-\<close>; a field present
  with any other value displays the string form of that value, except
  \<^verbatim>\<open>WinSATAssessmentState\<close>, which displays the decoded label of its value. A field whose
  value is zero never displays the placeholder. The string form of a text is the text
  itself, that of a float what \<^verbatim>\<open>str\<close> prints for it, that of an integer its decimal
  text, and that of a list or dictionary is built from the forms of its elements.
\<close>

theorem apply_scores_display:
  "(\<forall>(label, key) \<in> set mapping.
     field_vars (apply_scores py obj g) label =
       Some (case map_of obj key of
               None \<Rightarrow> ''-''
             | Some v \<Rightarrow>
                 (if v = PNone then ''-''
                  else if key = ''WinSATAssessmentState'' then decode_assessment_state py v
                  else py_str py v)))
   \<and> (\<forall>key. field_text py key (PInt 0) \<noteq> ''-'')
   \<and> (\<forall>s. py_str py (PStr s) = s)
   \<and> (\<forall>io r. py_str py (PFloat io r) = r)
   \<and> py_str py (PInt 7) = ''7''
   \<and> py_str py (PBool True) = ''True''
   \<and> (\<forall>s. py_str py (PList [PInt 1, PStr s]) = ''[1, '' @ repr_of_str py s @ '']'')
   \<and> (\<forall>k. py_str py (PDict [(k, PBool False)]) = ''{'' @ repr_of_str py k @ '': False}'')"
proof (intro conjI allI)
  show "\<forall>(label, key) \<in> set mapping.
     field_vars (apply_scores py obj g) label =
       Some (case map_of obj key of
               None \<Rightarrow> ''-''
             | Some v \<Rightarrow>
                 (if v = PNone then ''-''
                  else if key = ''WinSATAssessmentState'' then decode_assessment_state py v
                  else py_str py v))"
  proof (clarify)
    fix label key assume "(label, key) \<in> set mapping"
    then have "field_vars (apply_scores py obj g) label = Some (field_text py key (dict_get obj key))"
      by (rule field_vars_apply_scores)
    then show "field_vars (apply_scores py obj g) label =
         Some (case map_of obj key of
                 None \<Rightarrow> ''-''
               | Some v \<Rightarrow>
                   (if v = PNone then ''-''
                    else if key = ''WinSATAssessmentState'' then decode_assessment_state py v
                    else py_str py v))"
      by (simp add: field_text_def dict_get_def split: option.splits)
  qed
  fix key show "field_text py key (PInt 0) \<noteq> ''-''"
    by (simp add: field_text_def decode_assessment_state_def str_int_examples)
qed (simp_all add: str_int_examples)

text \<open>An object with a zero score and a date: zero shows as \<^verbatim>\<open>0\<close>, an absent field as \<^verbatim>\<open>-\<close>.\<close>

theorem apply_scores_display_witness:
  "(''CPUScore'', ''CPUScore'') \<in> set mapping
   \<and> (''DiskScore'', ''DiskScore'') \<in> set mapping
   \<and> field_vars (apply_scores sample_python [(''CPUScore'', PInt 0), (''TimeTaken'', PStr ''2024-01-01'')] sample_gui)
        ''CPUScore'' = Some ''0''
   \<and> field_vars (apply_scores sample_python [(''CPUScore'', PInt 0), (''TimeTaken'', PStr ''2024-01-01'')] sample_gui)
        ''TimeTaken'' = Some ''2024-01-01''
   \<and> field_vars (apply_scores sample_python [(''CPUScore'', PInt 0), (''TimeTaken'', PStr ''2024-01-01'')] sample_gui)
        ''DiskScore'' = Some ''-''"
  using apply_scores_display
          [of sample_python "[(''CPUScore'', PInt 0), (''TimeTaken'', PStr ''2024-01-01'')]" sample_gui]
  by (simp add: mapping_def str_int_examples)

text \<open>
  C6 as it is worded fails: a field present with the value \<^verbatim>\<open>null\<close> displays the
  placeholder, not the string form \<^verbatim>\<open>None\<close>, and the assessment state 1 displays its
  label, not the string form \<^verbatim>\<open>1\<close>.
\<close>

theorem apply_scores_display_counterexample:
  "map_of [(''CPUScore'', PNone), (''WinSATAssessmentState'', PInt 1)] ''CPUScore'' = Some PNone
   \<and> field_vars (apply_scores sample_python [(''CPUScore'', PNone), (''WinSATAssessmentState'', PInt 1)] sample_gui)
        ''CPUScore'' = Some ''-''
   \<and> py_str sample_python PNone = ''None''
   \<and> map_of [(''CPUScore'', PNone), (''WinSATAssessmentState'', PInt 1)] ''WinSATAssessmentState''
        = Some (PInt 1)
   \<and> field_vars (apply_scores sample_python [(''CPUScore'', PNone), (''WinSATAssessmentState'', PInt 1)] sample_gui)
        ''WinSATAssessmentState'' = Some ''1 (Valid/Completed)''
   \<and> py_str sample_python (PInt 1) = ''1''"
proof -
  have "(''CPUScore'', ''CPUScore'') \<in> set mapping"
    and "(''WinSATAssessmentState'', ''WinSATAssessmentState'') \<in> set mapping"
    by (simp_all add: mapping_def)
  then show ?thesis
    by (simp add: field_vars_apply_scores field_text_def dict_get_def decode_assessment_state_def
        str_int_examples)
qed

section \<open>The sentinel results of the invoker (C7)\<close>

text \<open>
  C7. For every script and timeout, one call of \<^verbatim>\<open>run_powershell\<close> starts exactly one
  process, with the resolved path and the fixed flags. When the executable is not found
  the result is exit status 127, empty standard output, and in the place of standard
  error the message that ends in the resolved path. When the timeout expires the result
  is exit status 124, empty standard output, and the message that holds the timeout
  value. Every other returned triple carries the exit status and the stripped streams
  of the process itself.
\<close>

theorem run_powershell_sentinels:
  "spawned (snd (run_powershell py w ps_script timeout_sec)) = spawned w @ [powershell_cmd w ps_script]
   \<and> (\<forall>m. subprocess_run w (powershell_cmd w ps_script) timeout_sec = Inl (FileNotFoundError m) \<longrightarrow>
         fst (run_powershell py w ps_script timeout_sec) =
           Inr (127, [], ''PowerShell executable not found at: '' @ resolve_powershell_path w))
   \<and> (\<forall>m. subprocess_run w (powershell_cmd w ps_script) timeout_sec = Inl (TimeoutExpired m) \<longrightarrow>
         fst (run_powershell py w ps_script timeout_sec) =
           Inr (124, [], ''PowerShell timed out after '' @ str_int timeout_sec @ '' seconds.''))
   \<and> (\<forall>rc out err. fst (run_powershell py w ps_script timeout_sec) = Inr (rc, out, err) \<longrightarrow>
         (\<exists>m. subprocess_run w (powershell_cmd w ps_script) timeout_sec = Inl (FileNotFoundError m)) \<and> rc = 127
         \<or> (\<exists>m. subprocess_run w (powershell_cmd w ps_script) timeout_sec = Inl (TimeoutExpired m)) \<and> rc = 124
         \<or> (\<exists>p. subprocess_run w (powershell_cmd w ps_script) timeout_sec = Inr p \<and> rc = returncode p
                \<and> out = str_strip py (stdout p) \<and> err = str_strip py (stderr p)))"
  by (auto simp add: run_powershell_def Let_def split: sum.splits py_exception.splits)

text \<open>A missing executable, an expired timeout of 30 seconds, and a process that exits with 3.\<close>

theorem run_powershell_sentinels_witness:
  "fst (run_powershell sample_python (sample_world [] (Inl (FileNotFoundError []))) ''winsat formal'' 600)
     = Inr (127, [], ''PowerShell executable not found at: powershell'')
   \<and> fst (run_powershell sample_python (sample_world [] (Inl (TimeoutExpired []))) ''winsat formal'' 30)
     = Inr (124, [], ''PowerShell timed out after 30 seconds.'')
   \<and> spawned (snd (run_powershell sample_python (sample_world [] (Inl (TimeoutExpired []))) ''winsat formal'' 30))
     = [[''powershell'', ''-NoProfile'', ''-ExecutionPolicy'', ''Bypass'', ''-Command'', ''winsat formal'']]
   \<and> fst (run_powershell sample_python
            (sample_world [] (Inr \<lparr>returncode = 3, stdout = '' {} '', stderr = []\<rparr>)) ''winsat formal'' 30)
     = Inr (3, ''{}'', [])"
  using run_powershell_sentinels [of sample_python "sample_world [] (Inl (FileNotFoundError []))" "''winsat formal''" 600]
        run_powershell_sentinels [of sample_python "sample_world [] (Inl (TimeoutExpired []))" "''winsat formal''" 30]
        run_powershell_sentinels
          [of sample_python "sample_world [] (Inr \<lparr>returncode = 3, stdout = '' {} '', stderr = []\<rparr>)" "''winsat formal''" 30]
  by (simp add: sample_world_def powershell_cmd_def resolve_powershell_path_def ps_system32_def
      ps_sysnative_def str_int_examples run_powershell_def sample_python_examples)

section \<open>Copy JSON (C8)\<close>

text \<open>
  C8, as amended. While the window is ready, a click on Copy JSON copies the stored raw
  output when there is some, and otherwise only shows a notice. While the window is busy
  the Copy JSON button is disabled with the other two and a click on it does nothing,
  whether raw output is stored or not. In no case does the click change whether the
  window is ready or busy, or what runs in the background.
\<close>

theorem copy_json_when_ready:
  "(ready g \<longrightarrow>
      (\<forall>r. raw_json g = Some r \<and> r \<noteq> [] \<longrightarrow>
         step py loads (Click CopyBtn) g =
           g\<lparr>clipboard := Some r, status_var := ''JSON copied to clipboard.'',
             history := history g @ [Copied r]\<rparr>)
      \<and> (raw_json g = None \<or> raw_json g = Some [] \<longrightarrow>
         step py loads (Click CopyBtn) g =
           g\<lparr>history := history g @
               [Shown (ShowInfo APP_TITLE ''No JSON available yet. Click Refresh first.'')]\<rparr>))
   \<and> (busy g \<longrightarrow> step py loads (Click CopyBtn) g = g)
   \<and> ready (step py loads (Click CopyBtn) g) = ready g
   \<and> busy (step py loads (Click CopyBtn) g) = busy g
   \<and> threads (step py loads (Click CopyBtn) g) = threads g
   \<and> after_queue (step py loads (Click CopyBtn) g) = after_queue g"
  by (auto simp: ready_def busy_def copy_json_def showinfo_def split: option.splits)

text \<open>
  The window at start-up (ready, nothing stored), after a successful query (ready, output
  stored) and after a click on Refresh (busy).
\<close>

theorem copy_json_when_ready_witness:
  "ready sample_gui \<and> raw_json sample_gui = None
   \<and> history (step sample_python sample_loads (Click CopyBtn) sample_gui)
       = history sample_gui
         @ [Shown (ShowInfo APP_TITLE ''No JSON available yet. Click Refresh first.'')]
   \<and> ready (handle_query_result sample_python sample_loads 0 ''{}'' [] sample_gui)
   \<and> raw_json (handle_query_result sample_python sample_loads 0 ''{}'' [] sample_gui) = Some ''{}''
   \<and> clipboard (step sample_python sample_loads (Click CopyBtn)
                  (handle_query_result sample_python sample_loads 0 ''{}'' [] sample_gui)) = Some ''{}''
   \<and> busy (refresh_scores sample_gui)
   \<and> step sample_python sample_loads (Click CopyBtn) (refresh_scores sample_gui) = refresh_scores sample_gui"
proof -
  have r: "raw_json (handle_query_result sample_python sample_loads 0 ''{}'' [] sample_gui) = Some ''{}''"
    by (simp add: handle_success decode_object_def unwrap_list_def sample_loads_examples)
  have b: "busy (refresh_scores sample_gui)"
    by (simp add: gui_defs)
  show ?thesis
    using copy_json_when_ready [of sample_gui sample_python sample_loads]
          copy_json_when_ready
            [of "handle_query_result sample_python sample_loads 0 ''{}'' [] sample_gui"
                sample_python sample_loads]
          copy_json_when_ready [of "refresh_scores sample_gui" sample_python sample_loads]
          r b
    by (simp add: sample_gui_ready handle_ready)
qed

text \<open>
  C8 as it is worded fails: after a successful query and a second click on Refresh, raw
  output is stored, yet a click on Copy JSON copies nothing.
\<close>

theorem copy_json_while_busy_counterexample:
  "raw_json (run sample_python sample_loads
               [TimerFires, ThreadRuns 0, ThreadReturns 0 (Inr (0, ''{}'', [])), RunPending,
                Click RefreshBtn] sample_gui) = Some ''{}''
   \<and> clipboard (step sample_python sample_loads (Click CopyBtn)
                  (run sample_python sample_loads
                     [TimerFires, ThreadRuns 0, ThreadReturns 0 (Inr (0, ''{}'', [])), RunPending,
                      Click RefreshBtn] sample_gui)) = None"
  by (simp add: run_def sample_gui_def gui_defs remove_nth_def handle_query_result_def
      decode_object_def unwrap_list_def sample_loads_examples apply_scores_def Let_def)

section \<open>The interpreter resolver (C9)\<close>

text \<open>
  C9. In every world the resolver returns a string: the path under \<^verbatim>\<open>System32\<close> when it
  exists, otherwise the path under \<^verbatim>\<open>Sysnative\<close> when that exists, otherwise the bare
  name \<^verbatim>\<open>powershell\<close>. Both paths are built under the value of \<^verbatim>\<open>SystemRoot\<close>, and under
  the built-in default (the directory \<^verbatim>\<open>Windows\<close> on drive \<^verbatim>\<open>C:\<close>) when the variable is
  not set.
\<close>

theorem resolve_powershell_path_order:
  "(path_exists w (ps_system32 w) \<longrightarrow> resolve_powershell_path w = ps_system32 w)
   \<and> (\<not> path_exists w (ps_system32 w) \<and> path_exists w (ps_sysnative w) \<longrightarrow>
        resolve_powershell_path w = ps_sysnative w)
   \<and> (\<not> path_exists w (ps_system32 w) \<and> \<not> path_exists w (ps_sysnative w) \<longrightarrow>
        resolve_powershell_path w = ''powershell'')
   \<and> (environ w ''SystemRoot'' = None \<longrightarrow>
        ps_system32 w = path_join w (''C:'' @ [CHR 0x5C] @ ''Windows'')
                          [''System32'', ''WindowsPowerShell'', ''v1.0'', ''powershell.exe'']
        \<and> ps_sysnative w = path_join w (''C:'' @ [CHR 0x5C] @ ''Windows'')
                          [''Sysnative'', ''WindowsPowerShell'', ''v1.0'', ''powershell.exe''])
   \<and> (\<forall>r. environ w ''SystemRoot'' = Some r \<longrightarrow>
        ps_system32 w = path_join w r [''System32'', ''WindowsPowerShell'', ''v1.0'', ''powershell.exe'']
        \<and> ps_sysnative w = path_join w r [''Sysnative'', ''WindowsPowerShell'', ''v1.0'', ''powershell.exe''])"
  by (simp add: resolve_powershell_path_def ps_system32_def ps_sysnative_def system_root_def)

text \<open>
  Worlds in which both paths exist, only the second, and neither; and a world with
  \<^verbatim>\<open>SystemRoot\<close> set to the directory \<^verbatim>\<open>WinNT\<close> on drive \<^verbatim>\<open>D:\<close>.
\<close>

theorem resolve_powershell_path_order_witness:
  "resolve_powershell_path
     (sample_world
        [windows_path [''C:'', ''Windows'', ''System32'', ''WindowsPowerShell'', ''v1.0'', ''powershell.exe''],
         windows_path [''C:'', ''Windows'', ''Sysnative'', ''WindowsPowerShell'', ''v1.0'', ''powershell.exe'']]
        (Inl (FileNotFoundError [])))
     = windows_path [''C:'', ''Windows'', ''System32'', ''WindowsPowerShell'', ''v1.0'', ''powershell.exe'']
   \<and> resolve_powershell_path
     (sample_world
        [windows_path [''C:'', ''Windows'', ''Sysnative'', ''WindowsPowerShell'', ''v1.0'', ''powershell.exe'']]
        (Inl (FileNotFoundError [])))
     = windows_path [''C:'', ''Windows'', ''Sysnative'', ''WindowsPowerShell'', ''v1.0'', ''powershell.exe'']
   \<and> resolve_powershell_path (sample_world [] (Inl (FileNotFoundError []))) = ''powershell''
   \<and> ps_system32
       ((sample_world [] (Inl (FileNotFoundError [])))
          \<lparr>environ := [''SystemRoot'' \<mapsto> windows_path [''D:'', ''WinNT'']]\<rparr>)
     = windows_path [''D:'', ''WinNT'', ''System32'', ''WindowsPowerShell'', ''v1.0'', ''powershell.exe'']"
  using resolve_powershell_path_order
          [of "sample_world
        [windows_path [''C:'', ''Windows'', ''System32'', ''WindowsPowerShell'', ''v1.0'', ''powershell.exe''],
         windows_path [''C:'', ''Windows'', ''Sysnative'', ''WindowsPowerShell'', ''v1.0'', ''powershell.exe'']]
        (Inl (FileNotFoundError []))"]
        resolve_powershell_path_order
          [of "sample_world
        [windows_path [''C:'', ''Windows'', ''Sysnative'', ''WindowsPowerShell'', ''v1.0'', ''powershell.exe'']]
        (Inl (FileNotFoundError []))"]
        resolve_powershell_path_order [of "sample_world [] (Inl (FileNotFoundError []))"]
        resolve_powershell_path_order
          [of "(sample_world [] (Inl (FileNotFoundError [])))
                 \<lparr>environ := [''SystemRoot'' \<mapsto> windows_path [''D:'', ''WinNT'']]\<rparr>"]
  apply (simp add: sample_world_paths windows_path_distinct)
  apply (simp add: sample_world_def windows_path_def)
  done

section \<open>The raw output is stored before it is parsed (C10)\<close>

text \<open>
  C10. When a query returned exit status 0 and non-empty output, the handler leaves that
  output in \<^verbatim>\<open>raw_json\<close> whatever \<^verbatim>\<open>json.loads\<close> does with it. When the interpretation
  fails, the fields keep what they displayed, the output stored before is gone, and a
  click on Copy JSON copies the text that could not be parsed.
\<close>

theorem raw_json_kept_on_parse_failure:
  "out \<noteq> [] \<Longrightarrow>
   raw_json (handle_query_result py loads 0 out err g) = Some out
   \<and> (\<forall>e. decode_object loads out = Inl e \<longrightarrow>
         field_vars (handle_query_result py loads 0 out err g) = field_vars g
         \<and> clipboard (step py loads (Click CopyBtn) (handle_query_result py loads 0 out err g)) = Some out)"
proof (intro conjI allI impI)
  assume ne: "out \<noteq> []"
  show "raw_json (handle_query_result py loads 0 out err g) = Some out"
  proof (cases "decode_object loads out")
    case (Inl e)
    with ne show ?thesis by (simp add: handle_parse_error)
  next
    case (Inr d)
    with ne show ?thesis by (simp add: handle_success)
  qed
  fix e assume "decode_object loads out = Inl e"
  with ne show "field_vars (handle_query_result py loads 0 out err g) = field_vars g"
    and "clipboard (step py loads (Click CopyBtn) (handle_query_result py loads 0 out err g)) = Some out"
    by (simp_all add: handle_parse_error copy_json_def)
qed

text \<open>A query that returns \<^verbatim>\<open>{}\<close>, followed by one that returns \<^verbatim>\<open>not json\<close>.\<close>

theorem raw_json_kept_on_parse_failure_witness:
  "''not json'' \<noteq> []
   \<and> raw_json (handle_query_result sample_python sample_loads 0 ''{}'' [] sample_gui) = Some ''{}''
   \<and> decode_object sample_loads ''not json''
       = Inl (JSONDecodeError ''Expecting value: line 1 column 1 (char 0)'')
   \<and> raw_json (handle_query_result sample_python sample_loads 0 ''not json'' []
                 (handle_query_result sample_python sample_loads 0 ''{}'' [] sample_gui)) = Some ''not json''
   \<and> clipboard (step sample_python sample_loads (Click CopyBtn)
                  (handle_query_result sample_python sample_loads 0 ''not json'' []
                     (handle_query_result sample_python sample_loads 0 ''{}'' [] sample_gui))) = Some ''not json''"
  using raw_json_kept_on_parse_failure [of "''{}''" sample_python sample_loads "[]" sample_gui]
        raw_json_kept_on_parse_failure
          [of "''not json''" sample_python sample_loads "[]"
              "handle_query_result sample_python sample_loads 0 ''{}'' [] sample_gui"]
  by (simp add: decode_object_def sample_loads_examples)

end
